theory Spec2Isabelle
  imports Complex_Main "HOL-Library.Word"
begin

section \<open>SFGF Collider: data model\<close>

text \<open>
  The embedding follows \<^verbatim>\<open>src/SFGF/Collider.hpp\<close>. Coordinates are \<^verbatim>\<open>float\<close> in the
  source (\<^verbatim>\<open>sf::Vector2f\<close>, \<^verbatim>\<open>sf::FloatRect\<close>); here they are real numbers: comparisons,
  \<^verbatim>\<open>std::max\<close>, \<^verbatim>\<open>std::min\<close> and \<^verbatim>\<open>std::abs\<close> are exact on floats, while
  \<^verbatim>\<open>+ - * /\<close>, \<^verbatim>\<open>std::sin\<close> and \<^verbatim>\<open>std::cos\<close> are taken without rounding, NaN or
  infinity. Every concrete input evaluated below, apart from the circle, uses dyadic
  rationals of small magnitude, on which float arithmetic is exact as well. The width and
  height of the cached box and the intercept in \<^verbatim>\<open>contains\<close> are exact differences and
  quotients here, where the source rounds; the statements for all colliders below (the
  empty collider, the symmetry of \<^verbatim>\<open>intersects\<close>) do not depend on their values.
\<close>

datatype Vector2f = Vector2f (vec_x: real) (vec_y: real)

record FloatRect =
  rect_left :: real
  rect_top :: real
  rect_width :: real
  rect_height :: real

text \<open>\<^verbatim>\<open>sf::FloatRect()\<close>: the default constructor of SFML sets all four fields to 0.\<close>

definition FloatRect_default :: FloatRect where
  "FloatRect_default = \<lparr>rect_left = 0, rect_top = 0, rect_width = 0, rect_height = 0\<rparr>"

record Collider =
  m_arr :: "Vector2f list"
  m_globalBounds :: FloatRect

text \<open>The implicitly defined default constructor: no vertices, default rectangle.\<close>

definition Collider_default :: Collider where
  "Collider_default = \<lparr>m_arr = [], m_globalBounds = FloatRect_default\<rparr>"

subsection \<open>SFML pieces used by the collider\<close>

text \<open>
  Modelled from the spec: \<^verbatim>\<open>sf::Transform\<close>, the argument of \<^verbatim>\<open>applyTransform\<close>, is a
  library type of SFML and not under \<^verbatim>\<open>src/\<close>. The spec gives it the semantics of a 3x3
  matrix of a 2D affine transform: \<^verbatim>\<open>transformPoint\<close> applies the first two rows to
  \<open>(x, y, 1)\<close>, \<^verbatim>\<open>combine\<close> is the matrix product, and \<^verbatim>\<open>translate\<close> combines with a
  translation matrix.
\<close>

record Transform =
  a00 :: real
  a01 :: real
  a02 :: real
  a10 :: real
  a11 :: real
  a12 :: real
  a20 :: real
  a21 :: real
  a22 :: real

definition Transform_identity :: Transform where
  "Transform_identity =
     \<lparr>a00 = 1, a01 = 0, a02 = 0, a10 = 0, a11 = 1, a12 = 0, a20 = 0, a21 = 0, a22 = 1\<rparr>"

definition transformPoint :: "Transform \<Rightarrow> Vector2f \<Rightarrow> Vector2f" where
  "transformPoint t p =
     Vector2f (a00 t * vec_x p + a01 t * vec_y p + a02 t)
              (a10 t * vec_x p + a11 t * vec_y p + a12 t)"

definition combine :: "Transform \<Rightarrow> Transform \<Rightarrow> Transform" where
  "combine s t =
     \<lparr>a00 = a00 s * a00 t + a01 s * a10 t + a02 s * a20 t,
      a01 = a00 s * a01 t + a01 s * a11 t + a02 s * a21 t,
      a02 = a00 s * a02 t + a01 s * a12 t + a02 s * a22 t,
      a10 = a10 s * a00 t + a11 s * a10 t + a12 s * a20 t,
      a11 = a10 s * a01 t + a11 s * a11 t + a12 s * a21 t,
      a12 = a10 s * a02 t + a11 s * a12 t + a12 s * a22 t,
      a20 = a20 s * a00 t + a21 s * a10 t + a22 s * a20 t,
      a21 = a20 s * a01 t + a21 s * a11 t + a22 s * a21 t,
      a22 = a20 s * a02 t + a21 s * a12 t + a22 s * a22 t\<rparr>"

definition translate :: "Transform \<Rightarrow> Vector2f \<Rightarrow> Transform" where
  "translate t offset =
     combine t \<lparr>a00 = 1, a01 = 0, a02 = vec_x offset,
                a10 = 0, a11 = 1, a12 = vec_y offset,
                a20 = 0, a21 = 0, a22 = 1\<rparr>"

text \<open>
  Modelled from the spec: \<^verbatim>\<open>sf::FloatRect::intersects\<close>, the library test that
  \<^verbatim>\<open>Collider::collides\<close> calls first, is code of SFML and not under \<^verbatim>\<open>src/\<close>. The spec
  calls it the standard (non-absolute-value) AABB overlap test between the cached bounds.
  It is written here as SFML 2 computes it: each rectangle is normalised to its minimum
  and maximum per axis (negative sizes are allowed), the intersection boundaries are
  taken, and the result is true when the intersection has positive, non-zero area.
\<close>

definition rect_intersects :: "FloatRect \<Rightarrow> FloatRect \<Rightarrow> bool" where
  "rect_intersects r1 r2 =
     (let r1MinX = min (rect_left r1) (rect_left r1 + rect_width r1);
          r1MaxX = max (rect_left r1) (rect_left r1 + rect_width r1);
          r1MinY = min (rect_top r1) (rect_top r1 + rect_height r1);
          r1MaxY = max (rect_top r1) (rect_top r1 + rect_height r1);
          r2MinX = min (rect_left r2) (rect_left r2 + rect_width r2);
          r2MaxX = max (rect_left r2) (rect_left r2 + rect_width r2);
          r2MinY = min (rect_top r2) (rect_top r2 + rect_height r2);
          r2MaxY = max (rect_top r2) (rect_top r2 + rect_height r2);
          interLeft = max r1MinX r2MinX;
          interTop = max r1MinY r2MinY;
          interRight = min r1MaxX r2MaxX;
          interBottom = min r1MaxY r2MaxY
      in interLeft < interRight \<and> interTop < interBottom)"

section \<open>The collider's operations\<close>

subsection \<open>Bounds\<close>

text \<open>
  \<^verbatim>\<open>nonnegatively_dimensional_rect_intersection\<close>: both rectangles are passed by value,
  their \<^verbatim>\<open>top\<close> and \<^verbatim>\<open>left\<close> are replaced by their absolute values, then four
  comparisons reject.
\<close>

definition nonnegatively_dimensional_rect_intersection :: "FloatRect \<Rightarrow> FloatRect \<Rightarrow> bool" where
  "nonnegatively_dimensional_rect_intersection lhs0 rhs0 =
     (let lhs = lhs0\<lparr>rect_top := \<bar>rect_top lhs0\<bar>, rect_left := \<bar>rect_left lhs0\<bar>\<rparr>;
          rhs = rhs0\<lparr>rect_top := \<bar>rect_top rhs0\<bar>, rect_left := \<bar>rect_left rhs0\<bar>\<rparr>
      in if rect_left lhs > rect_left rhs + rect_width rhs then False
         else if rect_left lhs + rect_width lhs < rect_left rhs then False
         else if rect_top lhs > rect_top rhs + rect_height rhs then False
         else if rect_top lhs + rect_height lhs < rect_top rhs then False
         else True)"

text \<open>
  The loop of \<^verbatim>\<open>updateGlobalBounds\<close>: \<open>mx\<close> is the source's \<^verbatim>\<open>max\<close>, \<open>pos\<close> its
  \<^verbatim>\<open>pos\<close>; one step per vertex, in order.
\<close>

fun updateGlobalBounds_loop :: "Vector2f list \<Rightarrow> Vector2f \<Rightarrow> Vector2f \<Rightarrow> Vector2f \<times> Vector2f" where
  "updateGlobalBounds_loop [] mx pos = (mx, pos)"
| "updateGlobalBounds_loop (pt # pts) mx pos =
     updateGlobalBounds_loop pts
       (Vector2f (if vec_x pt > vec_x mx then vec_x pt else vec_x mx)
                 (if vec_y pt > vec_y mx then vec_y pt else vec_y mx))
       (Vector2f (if vec_x pt < vec_x pos then vec_x pt else vec_x pos)
                 (if vec_y pt < vec_y pos then vec_y pt else vec_y pos))"

definition computeBounds :: "Vector2f list \<Rightarrow> FloatRect" where
  "computeBounds arr =
     (let max0 = Vector2f 0 0;
          pos0 = (if arr = [] then Vector2f 0 0 else arr ! 0);
          (mx, pos) = updateGlobalBounds_loop arr max0 pos0
      in \<lparr>rect_left = vec_x pos, rect_top = vec_y pos,
          rect_width = vec_x mx - vec_x pos, rect_height = vec_y mx - vec_y pos\<rparr>)"

definition updateGlobalBounds :: "Collider \<Rightarrow> Collider" where
  "updateGlobalBounds c = c\<lparr>m_globalBounds := computeBounds (m_arr c)\<rparr>"

definition getGlobalBounds :: "Collider \<Rightarrow> FloatRect" where
  "getGlobalBounds c = m_globalBounds c"

subsection \<open>Mutators\<close>

definition applyTransform :: "Collider \<Rightarrow> Transform \<Rightarrow> Collider" where
  "applyTransform c t = updateGlobalBounds (c\<lparr>m_arr := map (transformPoint t) (m_arr c)\<rparr>)"

definition pushBack :: "Collider \<Rightarrow> Vector2f \<Rightarrow> Collider" where
  "pushBack c pt = updateGlobalBounds (c\<lparr>m_arr := m_arr c @ [pt]\<rparr>)"

definition clear :: "Collider \<Rightarrow> Collider" where
  "clear c = updateGlobalBounds (c\<lparr>m_arr := []\<rparr>)"

subsection \<open>Factories\<close>

text \<open>
  \<^verbatim>\<open>circle\<close>: the counter \<^verbatim>\<open>i\<close> is \<^verbatim>\<open>auto i = 0u\<close>, a 32-bit unsigned integer, compared
  with the \<^verbatim>\<open>size_t\<close> count; for a count of \<open>2 ^ 32\<close> or more it wraps and the loop never
  ends, which is the value \<open>None\<close> here. The angle is \<^verbatim>\<open>6.28 / cnt * i\<close>.
\<close>

partial_function (option) circle_loop :: "real \<Rightarrow> nat \<Rightarrow> 32 word \<Rightarrow> Collider \<Rightarrow> Collider option" where
  "circle_loop radius cnt i result =
     (if unat i < cnt
      then circle_loop radius cnt (i + 1)
             (pushBack result
                (Vector2f (sin (6.28 / real cnt * real (unat i)) * radius + radius)
                          (cos (6.28 / real cnt * real (unat i)) * radius + radius)))
      else Some result)"

declare circle_loop.simps [code]

definition circle :: "real \<Rightarrow> nat \<Rightarrow> Collider option" where
  "circle radius cnt = circle_loop radius cnt 0 Collider_default"

definition rectangle :: "Vector2f \<Rightarrow> Collider" where
  "rectangle sz =
     (let result = Collider_default;
          result = pushBack result (Vector2f 0 0);
          result = pushBack result (Vector2f (vec_x sz) 0);
          result = pushBack result sz;
          result = pushBack result (Vector2f 0 (vec_y sz))
      in result)"

subsection \<open>Segment intersection\<close>

definition isOnSegment :: "Vector2f \<Rightarrow> Vector2f \<Rightarrow> Vector2f \<Rightarrow> bool" where
  "isOnSegment p q r =
     (vec_x q \<le> max (vec_x p) (vec_x r) \<and> vec_x q \<ge> min (vec_x p) (vec_x r) \<and>
      vec_y q \<le> max (vec_y p) (vec_y r) \<and> vec_y q \<ge> min (vec_y p) (vec_y r))"

text \<open>
  \<^verbatim>\<open>int val = ...\<close> converts the float cross product to \<^verbatim>\<open>int\<close>: the fractional part is
  discarded (truncation toward zero). A value outside the range of \<^verbatim>\<open>int\<close> is undefined
  behaviour in C++; the model keeps the mathematical truncation there.
\<close>

definition float_to_int :: "real \<Rightarrow> int" where
  "float_to_int v = (if 0 \<le> v then \<lfloor>v\<rfloor> else \<lceil>v\<rceil>)"

definition orientation :: "Vector2f \<Rightarrow> Vector2f \<Rightarrow> Vector2f \<Rightarrow> int" where
  "orientation p q r =
     (let val = float_to_int ((vec_y q - vec_y p) * (vec_x r - vec_x q) -
                              (vec_x q - vec_x p) * (vec_y r - vec_y q))
      in if val = 0 then 0 else if val > 0 then 1 else 2)"

definition lineIntersection :: "Vector2f \<Rightarrow> Vector2f \<Rightarrow> Vector2f \<Rightarrow> Vector2f \<Rightarrow> bool" where
  "lineIntersection p1 q1 p2 q2 =
     (let o1 = orientation p1 q1 p2;
          o2 = orientation p1 q1 q2;
          o3 = orientation p2 q2 p1;
          o4 = orientation p2 q2 q1
      in if o1 \<noteq> o2 \<and> o3 \<noteq> o4 then True
         else if (o1 = 0 \<and> isOnSegment p1 p2 q1)
               \<or> (o2 = 0 \<and> isOnSegment p1 q2 q1)
               \<or> (o3 = 0 \<and> isOnSegment p2 p1 q2)
               \<or> (o4 = 0 \<and> isOnSegment p2 q1 q2) then True
         else False)"

subsection \<open>Queries\<close>

text \<open>
  The two loops of \<^verbatim>\<open>intersects\<close>, with their indices: \<open>j\<close> runs over the closed loop
  of the other collider for a fixed edge \<open>(p1, q1)\<close>, \<open>i\<close> over the closed loop of this
  one; the first hit returns. Vertex counts are taken below \<open>2 ^ 31\<close>, so that neither the
  \<^verbatim>\<open>unsigned\<close> counters here nor the \<^verbatim>\<open>int\<close> counters of \<^verbatim>\<open>contains\<close> overflow.
\<close>

function intersects_inner :: "Vector2f \<Rightarrow> Vector2f \<Rightarrow> Vector2f list \<Rightarrow> nat \<Rightarrow> bool" where
  "intersects_inner p1 q1 poly_arr j =
     (if j < length poly_arr
      then (if lineIntersection p1 q1 (poly_arr ! (j - 1)) (poly_arr ! j) then True
            else intersects_inner p1 q1 poly_arr (Suc j))
      else False)"
  by pat_completeness auto
termination
  by (relation "measure (\<lambda>(p1, q1, poly_arr, j). length poly_arr - j)") auto

declare intersects_inner.simps [simp del]

function intersects_outer :: "Vector2f list \<Rightarrow> Vector2f list \<Rightarrow> nat \<Rightarrow> bool" where
  "intersects_outer arr poly_arr i =
     (if i < length arr
      then (if intersects_inner (arr ! (i - 1)) (arr ! i) poly_arr 1 then True
            else intersects_outer arr poly_arr (Suc i))
      else False)"
  by pat_completeness auto
termination
  by (relation "measure (\<lambda>(arr, poly_arr, i). length arr - i)") auto

declare intersects_outer.simps [simp del]

definition intersects :: "Collider \<Rightarrow> Collider \<Rightarrow> bool" where
  "intersects this poly =
     (if \<not> nonnegatively_dimensional_rect_intersection (getGlobalBounds this) (getGlobalBounds poly)
         \<or> m_arr poly = []
         \<or> m_arr this = []
      then False
      else (let arr = m_arr this @ [hd (m_arr this)];
                poly_arr = m_arr poly @ [hd (m_arr poly)]
            in intersects_outer arr poly_arr 1))"

text \<open>
  The loop of \<^verbatim>\<open>contains\<close>: \<^verbatim>\<open>for(i = 0, j = nvert - 1; i < nvert; j = i++)\<close> with
  \<^verbatim>\<open>int\<close> counters; \<open>j\<close> is \<open>- 1\<close> only when there is no vertex, and then it is never
  read. The division is evaluated only behind the first conjunct, as \<^verbatim>\<open>&&\<close> does.
\<close>

function contains_loop :: "Vector2f list \<Rightarrow> Vector2f \<Rightarrow> int \<Rightarrow> int \<Rightarrow> bool \<Rightarrow> bool" where
  "contains_loop arr point i j c =
     (if i < int (length arr)
      then (let pti = arr ! nat i; ptj = arr ! nat j
            in contains_loop arr point (i + 1) i
                 (if ((vec_y pti \<ge> vec_y point) \<noteq> (vec_y ptj \<ge> vec_y point)) \<and>
                     (vec_x point \<le> (vec_x ptj - vec_x pti) * (vec_y point - vec_y pti)
                                      / (vec_y ptj - vec_y pti) + vec_x pti)
                  then \<not> c else c))
      else c)"
  by pat_completeness auto
termination
  by (relation "measure (\<lambda>(arr, point, i, j, c). nat (int (length arr) - i))") auto

declare contains_loop.simps [simp del]

definition contains :: "Collider \<Rightarrow> Vector2f \<Rightarrow> bool" where
  "contains this point =
     (let nvert = int (length (m_arr this))
      in contains_loop (m_arr this) point 0 (nvert - 1) False)"

fun collides_loop :: "Collider \<Rightarrow> Vector2f list \<Rightarrow> bool" where
  "collides_loop this [] = True"
| "collides_loop this (v # vs) = (if \<not> contains this v then False else collides_loop this vs)"

definition collides :: "Collider \<Rightarrow> Collider \<Rightarrow> bool" where
  "collides this poly =
     (if \<not> rect_intersects (getGlobalBounds this) (getGlobalBounds poly) then False
      else if intersects this poly then True
      else collides_loop this (m_arr poly))"

section \<open>Notions of the specification\<close>

text \<open>
  The cached box is private and changes only in \<^verbatim>\<open>updateGlobalBounds\<close>, which every
  mutator calls last; \<open>wellFormed\<close> says that the cache is the box computed from the
  current vertices. It holds of the default-constructed collider and after every mutator.
\<close>

definition wellFormed :: "Collider \<Rightarrow> bool" where
  "wellFormed c = (m_globalBounds c = computeBounds (m_arr c))"

text \<open>The closed vertex loop: the vertices with the first vertex appended at the end.\<close>

definition closedLoop :: "Vector2f list \<Rightarrow> Vector2f list" where
  "closedLoop arr = arr @ [hd arr]"

text \<open>
  Some edge of one closed loop intersects some edge of the other, according to
  \<open>lineIntersection\<close>; edge \<open>i\<close> joins the vertices \<open>i - 1\<close> and \<open>i\<close>.
\<close>

definition someEdgeIntersects :: "Vector2f list \<Rightarrow> Vector2f list \<Rightarrow> bool" where
  "someEdgeIntersects arr poly_arr =
     (\<exists>i \<in> {1..<length arr}. \<exists>j \<in> {1..<length poly_arr}.
        lineIntersection (arr ! (i - 1)) (arr ! i) (poly_arr ! (j - 1)) (poly_arr ! j))"

subsection \<open>Concrete colliders\<close>

text \<open>A horizontal segment from \<open>(-10, 0)\<close> to the origin and a vertical one through it.\<close>

definition ex_horizontal :: Collider where
  "ex_horizontal = pushBack (pushBack Collider_default (Vector2f (-10) 0)) (Vector2f 0 0)"

definition ex_vertical :: Collider where
  "ex_vertical = pushBack (pushBack Collider_default (Vector2f (-1) (-1))) (Vector2f (-1) 1)"

text \<open>Two triangles two units apart: one left of the origin, one right of it.\<close>

definition ex_left_triangle :: Collider where
  "ex_left_triangle =
     pushBack (pushBack (pushBack Collider_default (Vector2f (-4) 0)) (Vector2f 0 0))
       (Vector2f (-2) 1)"

definition ex_right_triangle :: Collider where
  "ex_right_triangle =
     pushBack (pushBack (pushBack Collider_default (Vector2f 2 (1/8))) (Vector2f 2 (3/8)))
       (Vector2f 5 (1/4))"

text \<open>The square of the usage sample.\<close>

definition ex_square :: Collider where
  "ex_square = rectangle (Vector2f 10 10)"

text \<open>A single vertex inside the square.\<close>

definition ex_point :: Collider where
  "ex_point = pushBack Collider_default (Vector2f 5 5)"

text \<open>Two unit squares that share the side from \<open>(1, 0)\<close> to \<open>(1, 1)\<close>.\<close>

definition ex_unit_square :: Collider where
  "ex_unit_square = rectangle (Vector2f 1 1)"

definition ex_unit_square_shifted :: Collider where
  "ex_unit_square_shifted =
     applyTransform (rectangle (Vector2f 1 1)) (translate Transform_identity (Vector2f 1 0))"

text \<open>A triangle with legs of \<open>7/8\<close> and a triangle with legs of \<open>1/8\<close> well inside it.\<close>

definition ex_outer_triangle :: Collider where
  "ex_outer_triangle =
     pushBack (pushBack (pushBack Collider_default (Vector2f 0 0)) (Vector2f (7/8) 0))
       (Vector2f 0 (7/8))"

definition ex_inner_triangle :: Collider where
  "ex_inner_triangle =
     pushBack (pushBack (pushBack Collider_default (Vector2f (1/8) (1/8))) (Vector2f (1/4) (1/8)))
       (Vector2f (1/8) (1/4))"

text \<open>A translation by \<open>(20, 20)\<close>, which moves the two segments right of and below the origin.\<close>

definition shift_20 :: Transform where
  "shift_20 = translate Transform_identity (Vector2f 20 20)"

subsection \<open>The tight box\<close>

text \<open>
  The tight axis-aligned bounding box of a vertex list: left and top are the per-axis
  minima, left + width and top + height the per-axis maxima; the zero box at the origin
  for no vertex.
\<close>

definition tightBounds :: "Vector2f list \<Rightarrow> FloatRect" where
  "tightBounds arr =
     (if arr = [] then \<lparr>rect_left = 0, rect_top = 0, rect_width = 0, rect_height = 0\<rparr>
      else \<lparr>rect_left = Min (vec_x ` set arr), rect_top = Min (vec_y ` set arr),
            rect_width = Max (vec_x ` set arr) - Min (vec_x ` set arr),
            rect_height = Max (vec_y ` set arr) - Min (vec_y ` set arr)\<rparr>)"

subsection \<open>Segments as point sets\<close>

text \<open>
  Two segments are parallel when their direction vectors have cross product zero; they
  overlap when they share a point, a point of a segment being \<open>p + t (q - p)\<close> for some
  \<open>t\<close> between 0 and 1.
\<close>

definition segment_parallel :: "Vector2f \<Rightarrow> Vector2f \<Rightarrow> Vector2f \<Rightarrow> Vector2f \<Rightarrow> bool" where
  "segment_parallel p1 q1 p2 q2 =
     ((vec_x q1 - vec_x p1) * (vec_y q2 - vec_y p2) = (vec_y q1 - vec_y p1) * (vec_x q2 - vec_x p2))"

definition segment_point :: "Vector2f \<Rightarrow> Vector2f \<Rightarrow> real \<Rightarrow> Vector2f" where
  "segment_point p q t =
     Vector2f (vec_x p + t * (vec_x q - vec_x p)) (vec_y p + t * (vec_y q - vec_y p))"

definition segments_overlap :: "Vector2f \<Rightarrow> Vector2f \<Rightarrow> Vector2f \<Rightarrow> Vector2f \<Rightarrow> bool" where
  "segments_overlap p1 q1 p2 q2 =
     (\<exists>s t. 0 \<le> s \<and> s \<le> 1 \<and> 0 \<le> t \<and> t \<le> 1 \<and> segment_point p1 q1 s = segment_point p2 q2 t)"

subsection \<open>Strict enclosure\<close>

text \<open>
  The edges of a collider: each vertex joined to the next, the last to the first. Two
  colliders' edges touch when an edge of one shares a point with an edge of the other.
  \<open>A\<close> strictly encloses \<open>B\<close>: every vertex of \<open>B\<close> is contained in \<open>A\<close>, no vertex of
  \<open>A\<close> is contained in \<open>B\<close>, and no edge of \<open>A\<close> touches or crosses an edge of \<open>B\<close>.
\<close>

definition loopEdges :: "Vector2f list \<Rightarrow> (Vector2f \<times> Vector2f) list" where
  "loopEdges arr = zip (closedLoop arr) (tl (closedLoop arr))"

definition edgesTouch :: "Vector2f list \<Rightarrow> Vector2f list \<Rightarrow> bool" where
  "edgesTouch arr poly_arr =
     list_ex (\<lambda>(p1, q1). list_ex (\<lambda>(p2, q2). segments_overlap p1 q1 p2 q2) (loopEdges poly_arr))
       (loopEdges arr)"

definition strictlyEncloses :: "Collider \<Rightarrow> Collider \<Rightarrow> bool" where
  "strictlyEncloses A B =
     (list_all (contains A) (m_arr B) \<and>
      list_all (\<lambda>v. \<not> contains B v) (m_arr A) \<and>
      \<not> edgesTouch (m_arr A) (m_arr B))"

subsection \<open>The circle\<close>

text \<open>
  Vertex \<open>k\<close> as the loop of \<^verbatim>\<open>circle\<close> computes it, and the vertex list of the
  specification, which samples the angles \<open>2 \<pi> i / cnt\<close>.
\<close>

definition circleVertex :: "real \<Rightarrow> nat \<Rightarrow> nat \<Rightarrow> Vector2f" where
  "circleVertex radius cnt k =
     Vector2f (sin (6.28 / real cnt * real k) * radius + radius)
              (cos (6.28 / real cnt * real k) * radius + radius)"

definition circle_spec :: "real \<Rightarrow> nat \<Rightarrow> Vector2f list" where
  "circle_spec radius cnt =
     map (\<lambda>i. Vector2f (radius * sin (2 * pi * real i / real cnt) + radius)
                       (radius * cos (2 * pi * real i / real cnt) + radius)) [0..<cnt]"

text \<open>The transform of the usage sample: \<^verbatim>\<open>sf::Transform().translate({9, 0})\<close>.\<close>

definition sample_translation :: Transform where
  "sample_translation = translate Transform_identity (Vector2f 9 0)"

section \<open>Auxiliary facts\<close>

subsection \<open>The loops of the edge query\<close>

lemma intersects_inner_iff:
  "intersects_inner p1 q1 poly_arr j \<longleftrightarrow>
     (\<exists>k. j \<le> k \<and> k < length poly_arr \<and> lineIntersection p1 q1 (poly_arr ! (k - 1)) (poly_arr ! k))"
proof (induction p1 q1 poly_arr j rule: intersects_inner.induct)
  case (1 p1 q1 poly_arr j)
  show ?case
  proof (cases "j < length poly_arr")
    case False
    then show ?thesis by (subst intersects_inner.simps) auto
  next
    case True
    show ?thesis
    proof (cases "lineIntersection p1 q1 (poly_arr ! (j - 1)) (poly_arr ! j)")
      case hit: True
      with True show ?thesis by (subst intersects_inner.simps) auto
    next
      case miss: False
      have "intersects_inner p1 q1 poly_arr j = intersects_inner p1 q1 poly_arr (Suc j)"
        using True miss by (subst intersects_inner.simps) simp
      also have "\<dots> \<longleftrightarrow> (\<exists>k. Suc j \<le> k \<and> k < length poly_arr \<and>
                     lineIntersection p1 q1 (poly_arr ! (k - 1)) (poly_arr ! k))"
        using "1.IH" [OF True miss] .
      also have "\<dots> \<longleftrightarrow> (\<exists>k. j \<le> k \<and> k < length poly_arr \<and>
                     lineIntersection p1 q1 (poly_arr ! (k - 1)) (poly_arr ! k))"
        using miss by (metis Suc_leD Suc_leI le_neq_implies_less)
      finally show ?thesis .
    qed
  qed
qed

lemma intersects_outer_iff:
  "intersects_outer arr poly_arr i \<longleftrightarrow>
     (\<exists>k. i \<le> k \<and> k < length arr \<and> intersects_inner (arr ! (k - 1)) (arr ! k) poly_arr 1)"
proof (induction arr poly_arr i rule: intersects_outer.induct)
  case (1 arr poly_arr i)
  show ?case
  proof (cases "i < length arr")
    case False
    then show ?thesis by (subst intersects_outer.simps) auto
  next
    case True
    show ?thesis
    proof (cases "intersects_inner (arr ! (i - 1)) (arr ! i) poly_arr 1")
      case hit: True
      with True show ?thesis by (subst intersects_outer.simps) auto
    next
      case miss: False
      have "intersects_outer arr poly_arr i = intersects_outer arr poly_arr (Suc i)"
        using True miss by (subst intersects_outer.simps) simp
      also have "\<dots> \<longleftrightarrow> (\<exists>k. Suc i \<le> k \<and> k < length arr \<and>
                     intersects_inner (arr ! (k - 1)) (arr ! k) poly_arr 1)"
        using "1.IH" [OF True miss] .
      also have "\<dots> \<longleftrightarrow> (\<exists>k. i \<le> k \<and> k < length arr \<and>
                     intersects_inner (arr ! (k - 1)) (arr ! k) poly_arr 1)"
        using miss by (metis Suc_leD Suc_leI le_neq_implies_less)
      finally show ?thesis .
    qed
  qed
qed

lemma intersects_outer_someEdge:
  "intersects_outer arr poly_arr 1 = someEdgeIntersects arr poly_arr"
  unfolding someEdgeIntersects_def intersects_outer_iff intersects_inner_iff
  by (auto simp: Bex_def)

lemma lineIntersection_commute:
  "lineIntersection p1 q1 p2 q2 = lineIntersection p2 q2 p1 q1"
  unfolding lineIntersection_def Let_def by auto

lemma nonneg_rect_commute:
  "nonnegatively_dimensional_rect_intersection l r = nonnegatively_dimensional_rect_intersection r l"
  unfolding nonnegatively_dimensional_rect_intersection_def Let_def by auto

lemma someEdgeIntersects_commute:
  "someEdgeIntersects arr poly_arr = someEdgeIntersects poly_arr arr"
  unfolding someEdgeIntersects_def using lineIntersection_commute by blast

lemma intersects_unfold:
  "intersects a b \<longleftrightarrow>
     nonnegatively_dimensional_rect_intersection (getGlobalBounds a) (getGlobalBounds b) \<and>
     m_arr b \<noteq> [] \<and> m_arr a \<noteq> [] \<and>
     someEdgeIntersects (closedLoop (m_arr a)) (closedLoop (m_arr b))"
  unfolding intersects_def Let_def closedLoop_def intersects_outer_someEdge by auto

subsection \<open>The cached box\<close>

lemma loop_fold:
  "updateGlobalBounds_loop arr mx pos =
     (Vector2f (fold max (map vec_x arr) (vec_x mx)) (fold max (map vec_y arr) (vec_y mx)),
      Vector2f (fold min (map vec_x arr) (vec_x pos)) (fold min (map vec_y arr) (vec_y pos)))"
proof (induction arr arbitrary: mx pos)
  case Nil
  show ?case by simp
next
  case (Cons pt pts)
  have mx: "\<And>a b::real. (if a > b then a else b) = max a b"
    and mn: "\<And>a b::real. (if a < b then a else b) = min a b"
    by (auto simp: max_def min_def)
  show ?case by (simp add: Cons.IH mx mn)
qed

lemma fold_max_Max: "fold max xs (m::real) = Max (insert m (set xs))"
  using Max.set_eq_fold [of m xs] by simp

lemma fold_min_Min: "fold min xs (m::real) = Min (insert m (set xs))"
  using Min.set_eq_fold [of m xs] by simp

lemma computeBounds_Nil: "computeBounds [] = FloatRect_default"
  by (simp add: computeBounds_def FloatRect_default_def)

lemma computeBounds_nonempty:
  assumes "arr \<noteq> []"
  shows "rect_left (computeBounds arr) = Min (vec_x ` set arr)"
    and "rect_top (computeBounds arr) = Min (vec_y ` set arr)"
    and "rect_left (computeBounds arr) + rect_width (computeBounds arr) = max 0 (Max (vec_x ` set arr))"
    and "rect_top (computeBounds arr) + rect_height (computeBounds arr) = max 0 (Max (vec_y ` set arr))"
proof -
  from assms obtain p ps where arr: "arr = p # ps" by (cases arr) auto
  have ix: "insert (vec_x p) (vec_x ` set arr) = vec_x ` set arr"
    and iy: "insert (vec_y p) (vec_y ` set arr) = vec_y ` set arr"
    by (auto simp: arr)
  have fin: "finite (vec_x ` set arr)" "finite (vec_y ` set arr)"
    and ne: "vec_x ` set arr \<noteq> {}" "vec_y ` set arr \<noteq> {}"
    using assms by auto
  have hd: "arr ! 0 = p" by (simp add: arr)
  have lx: "Min (vec_x ` set arr) \<le> vec_x p" and ly: "Min (vec_y ` set arr) \<le> vec_y p"
    by (rule Min_le; simp add: arr)+
  show "rect_left (computeBounds arr) = Min (vec_x ` set arr)"
    using assms lx by (simp add: computeBounds_def loop_fold fold_min_Min hd)
  show "rect_top (computeBounds arr) = Min (vec_y ` set arr)"
    using assms ly by (simp add: computeBounds_def loop_fold fold_min_Min hd)
  show "rect_left (computeBounds arr) + rect_width (computeBounds arr) = max 0 (Max (vec_x ` set arr))"
    using assms fin ne by (simp add: computeBounds_def Let_def loop_fold fold_max_Max Max_insert max.commute)
  show "rect_top (computeBounds arr) + rect_height (computeBounds arr) = max 0 (Max (vec_y ` set arr))"
    using assms fin ne by (simp add: computeBounds_def Let_def loop_fold fold_max_Max Max_insert max.commute)
qed

lemma computeBounds_size_nonneg:
  "0 \<le> rect_width (computeBounds arr)" "0 \<le> rect_height (computeBounds arr)"
proof -
  show "0 \<le> rect_width (computeBounds arr)"
  proof (cases "arr = []")
    case True
    then show ?thesis by (simp add: computeBounds_Nil FloatRect_default_def)
  next
    case False
    obtain p where "p \<in> set arr" using False by (cases arr) auto
    then have "Min (vec_x ` set arr) \<le> vec_x p" "vec_x p \<le> Max (vec_x ` set arr)"
      by simp_all
    then have "Min (vec_x ` set arr) \<le> Max (vec_x ` set arr)" by linarith
    then show ?thesis
      using computeBounds_nonempty(1,3) [OF False] by linarith
  qed
  show "0 \<le> rect_height (computeBounds arr)"
  proof (cases "arr = []")
    case True
    then show ?thesis by (simp add: computeBounds_Nil FloatRect_default_def)
  next
    case False
    obtain p where "p \<in> set arr" using False by (cases arr) auto
    then have "Min (vec_y ` set arr) \<le> vec_y p" "vec_y p \<le> Max (vec_y ` set arr)"
      by simp_all
    then have "Min (vec_y ` set arr) \<le> Max (vec_y ` set arr)" by linarith
    then show ?thesis
      using computeBounds_nonempty(2,4) [OF False] by linarith
  qed
qed

lemma wellFormed_default: "wellFormed Collider_default"
  by (simp add: wellFormed_def Collider_default_def computeBounds_Nil)

lemma wellFormed_updateGlobalBounds: "wellFormed (updateGlobalBounds c)"
  by (simp add: wellFormed_def updateGlobalBounds_def)

lemma wellFormed_pushBack: "wellFormed (pushBack c pt)"
  by (simp add: pushBack_def wellFormed_updateGlobalBounds)

lemma wellFormed_clear: "wellFormed (clear c)"
  by (simp add: clear_def wellFormed_updateGlobalBounds)

lemma wellFormed_applyTransform: "wellFormed (applyTransform c t)"
  by (simp add: applyTransform_def wellFormed_updateGlobalBounds)

lemma m_arr_pushBack: "m_arr (pushBack c pt) = m_arr c @ [pt]"
  by (simp add: pushBack_def updateGlobalBounds_def)

lemma m_arr_clear: "m_arr (clear c) = []"
  by (simp add: clear_def updateGlobalBounds_def)

lemma m_arr_applyTransform: "m_arr (applyTransform c t) = map (transformPoint t) (m_arr c)"
  by (simp add: applyTransform_def updateGlobalBounds_def)

lemma rect_intersects_default_right: "\<not> rect_intersects r FloatRect_default"
  by (auto simp: rect_intersects_def FloatRect_default_def Let_def)

lemma rect_intersects_default_left: "\<not> rect_intersects FloatRect_default r"
  by (auto simp: rect_intersects_def FloatRect_default_def Let_def)

lemma contains_empty: "m_arr e = [] \<Longrightarrow> \<not> contains e p"
  by (simp add: contains_def contains_loop.simps)


text \<open>
  The computed box of a non-empty vertex list is the tight box exactly when some vertex
  has a non-negative \<open>x\<close> and some vertex a non-negative \<open>y\<close>: the running maximum
  starts at \<open>(0, 0)\<close>.
\<close>

lemma computeBounds_tight_iff:
  assumes "arr \<noteq> []"
  shows "computeBounds arr = tightBounds arr \<longleftrightarrow>
           0 \<le> Max (vec_x ` set arr) \<and> 0 \<le> Max (vec_y ` set arr)"
proof -
  note B = computeBounds_nonempty [OF assms]
  have w: "rect_width (computeBounds arr) = max 0 (Max (vec_x ` set arr)) - Min (vec_x ` set arr)"
    and h: "rect_height (computeBounds arr) = max 0 (Max (vec_y ` set arr)) - Min (vec_y ` set arr)"
    using B by linarith+
  have "computeBounds arr = tightBounds arr \<longleftrightarrow>
          rect_left (computeBounds arr) = rect_left (tightBounds arr) \<and>
          rect_top (computeBounds arr) = rect_top (tightBounds arr) \<and>
          rect_width (computeBounds arr) = rect_width (tightBounds arr) \<and>
          rect_height (computeBounds arr) = rect_height (tightBounds arr)"
    by (auto intro: FloatRect.equality)
  also have "\<dots> \<longleftrightarrow> 0 \<le> Max (vec_x ` set arr) \<and> 0 \<le> Max (vec_y ` set arr)"
    using assms by (auto simp: tightBounds_def B(1,2) w h max_def)
  finally show ?thesis .
qed

lemma computeBounds_tight_Nil: "computeBounds [] = tightBounds []"
  by (simp add: computeBounds_Nil tightBounds_def FloatRect_default_def)

subsection \<open>The concrete colliders, evaluated\<close>

lemma ex_square_eq:
  "ex_square =
     \<lparr>m_arr = [Vector2f 0 0, Vector2f 10 0, Vector2f 10 10, Vector2f 0 10],
      m_globalBounds = \<lparr>rect_left = 0, rect_top = 0, rect_width = 10, rect_height = 10\<rparr>\<rparr>"
  by code_simp

lemma ex_unit_square_eq:
  "ex_unit_square =
     \<lparr>m_arr = [Vector2f 0 0, Vector2f 1 0, Vector2f 1 1, Vector2f 0 1],
      m_globalBounds = \<lparr>rect_left = 0, rect_top = 0, rect_width = 1, rect_height = 1\<rparr>\<rparr>"
  by code_simp

lemma ex_unit_square_shifted_eq:
  "ex_unit_square_shifted =
     \<lparr>m_arr = [Vector2f 1 0, Vector2f 2 0, Vector2f 2 1, Vector2f 1 1],
      m_globalBounds = \<lparr>rect_left = 1, rect_top = 0, rect_width = 1, rect_height = 1\<rparr>\<rparr>"
  by code_simp

lemma ex_outer_triangle_eq:
  "ex_outer_triangle =
     \<lparr>m_arr = [Vector2f 0 0, Vector2f (7/8) 0, Vector2f 0 (7/8)],
      m_globalBounds = \<lparr>rect_left = 0, rect_top = 0, rect_width = 7/8, rect_height = 7/8\<rparr>\<rparr>"
  by code_simp

lemma ex_inner_triangle_eq:
  "ex_inner_triangle =
     \<lparr>m_arr = [Vector2f (1/8) (1/8), Vector2f (1/4) (1/8), Vector2f (1/8) (1/4)],
      m_globalBounds = \<lparr>rect_left = 1/8, rect_top = 1/8, rect_width = 1/8, rect_height = 1/8\<rparr>\<rparr>"
  by code_simp

lemma ex_point_eq:
  "ex_point =
     \<lparr>m_arr = [Vector2f 5 5],
      m_globalBounds = \<lparr>rect_left = 5, rect_top = 5, rect_width = 0, rect_height = 0\<rparr>\<rparr>"
  by code_simp

subsection \<open>The loop of the circle factory\<close>

lemma m_arr_foldl_pushBack: "m_arr (foldl pushBack c vs) = m_arr c @ vs"
  by (induction vs arbitrary: c) (simp_all add: m_arr_pushBack)

lemma wellFormed_foldl_pushBack: "wellFormed c \<Longrightarrow> wellFormed (foldl pushBack c vs)"
  by (induction vs arbitrary: c) (simp_all add: wellFormed_pushBack)

lemma circle_loop_eq:
  assumes "cnt < 2 ^ 32" and "unat i \<le> cnt"
  shows "circle_loop radius cnt i c =
           Some (foldl pushBack c (map (circleVertex radius cnt) [unat i..<cnt]))"
  using assms(2)
proof (induction "cnt - unat i" arbitrary: i c)
  case 0
  then have "\<not> unat i < cnt" by simp
  moreover have "[unat i..<cnt] = []" using 0 by simp
  ultimately show ?case by (subst circle_loop.simps) simp
next
  case (Suc k)
  then have lt: "unat i < cnt" by simp
  have "unat i + unat (1 :: 32 word) < 2 ^ LENGTH(32)"
    using lt assms(1) by simp
  then have nxt: "unat (i + 1) = unat i + 1"
    by (simp add: unat_add_lem [THEN iffD1])
  have k: "k = cnt - unat (i + 1)" using Suc.hyps(2) nxt by simp
  have le: "unat (i + 1) \<le> cnt" using lt nxt by simp
  have upt: "[unat i..<cnt] = unat i # [unat (i + 1)..<cnt]"
    using lt nxt by (simp add: upt_conv_Cons)
  show ?case
    by (subst circle_loop.simps) (simp add: lt Suc.hyps(1) [OF k le] upt circleVertex_def)
qed

lemma circle_eq:
  assumes "cnt < 2 ^ 32"
  shows "circle radius cnt =
           Some (foldl pushBack Collider_default (map (circleVertex radius cnt) [0..<cnt]))"
  unfolding circle_def using circle_loop_eq [OF assms, of 0 radius Collider_default] by simp

lemma circle_vertices:
  assumes "cnt < 2 ^ 32"
  shows "map_option m_arr (circle radius cnt) = Some (map (circleVertex radius cnt) [0..<cnt])"
  by (simp add: circle_eq [OF assms] m_arr_foldl_pushBack Collider_default_def)

subsection \<open>Numerical bounds on sine and cosine\<close>

text \<open>
  Taylor polynomials of degree below 20 with the remainder of Maclaurin's theorem, at the
  angles \<open>3.14\<close>, \<open>6.28 / 128 * 82\<close> and \<open>6.28 / 128 * 83\<close>.
\<close>

lemma Maclaurin_cos_bound: "\<bar>cos x - (\<Sum>m<n. cos_coeff m * x ^ m)\<bar> \<le> inverse (fact n) * \<bar>x\<bar> ^ n"
proof -
  obtain t where t: "cos x = (\<Sum>m<n. cos_coeff m * x ^ m) + (cos (t + 1/2 * real n * pi) / fact n) * x ^ n"
    using Maclaurin_cos_expansion [of x n] by blast
  define r where "r = cos (t + 1/2 * real n * pi)"
  have r: "\<bar>r\<bar> \<le> 1" unfolding r_def by (rule abs_cos_le_one)
  have "\<bar>(r / fact n) * x ^ n\<bar> = \<bar>r\<bar> * (inverse (fact n) * \<bar>x\<bar> ^ n)"
    by (simp add: abs_mult power_abs divide_inverse)
  also have "\<dots> \<le> 1 * (inverse (fact n) * \<bar>x\<bar> ^ n)"
    using r by (intro mult_right_mono) simp_all
  finally have "\<bar>(r / fact n) * x ^ n\<bar> \<le> inverse (fact n) * \<bar>x\<bar> ^ n" by simp
  moreover have "cos x - (\<Sum>m<n. cos_coeff m * x ^ m) = (r / fact n) * x ^ n"
    using t unfolding r_def by simp
  ultimately show ?thesis by simp
qed

lemmas taylor_eval = lessThan_nat_numeral lessThan_Suc sin_coeff_def cos_coeff_def fact_numeral
  power_divide

lemma remainder_82: "inverse (fact 20) * \<bar>6437 / 1600 :: real\<bar> ^ 20 \<le> 1 / 1000000"
  by (simp add: fact_numeral power_divide)

lemma remainder_83: "inverse (fact 20) * \<bar>13031 / 3200 :: real\<bar> ^ 20 \<le> 1 / 1000000"
  by (simp add: fact_numeral power_divide)

lemma sin_82:
  "- (7718 / 10000) \<le> sin (6437 / 1600 :: real)" "sin (6437 / 1600 :: real) \<le> - (7716 / 10000)"
proof -
  have s: "- (77172 / 100000) \<le> (\<Sum>m<20. sin_coeff m * (6437 / 1600 :: real) ^ m)"
          "(\<Sum>m<20. sin_coeff m * (6437 / 1600 :: real) ^ m) \<le> - (77171 / 100000)"
    by (simp_all add: taylor_eval)
  show "- (7718 / 10000) \<le> sin (6437 / 1600 :: real)" "sin (6437 / 1600 :: real) \<le> - (7716 / 10000)"
    using Maclaurin_sin_bound [of "6437 / 1600" 20] s remainder_82 by linarith+
qed

lemma cos_82:
  "- (6361 / 10000) \<le> cos (6437 / 1600 :: real)" "cos (6437 / 1600 :: real) \<le> - (6359 / 10000)"
proof -
  have s: "- (63597 / 100000) \<le> (\<Sum>m<20. cos_coeff m * (6437 / 1600 :: real) ^ m)"
          "(\<Sum>m<20. cos_coeff m * (6437 / 1600 :: real) ^ m) \<le> - (63596 / 100000)"
    by (simp_all add: taylor_eval)
  show "- (6361 / 10000) \<le> cos (6437 / 1600 :: real)" "cos (6437 / 1600 :: real) \<le> - (6359 / 10000)"
    using Maclaurin_cos_bound [of "6437 / 1600" 20] s remainder_82 by linarith+
qed

lemma sin_83:
  "- (8021 / 10000) \<le> sin (13031 / 3200 :: real)" "sin (13031 / 3200 :: real) \<le> - (8019 / 10000)"
proof -
  have s: "- (80198 / 100000) \<le> (\<Sum>m<20. sin_coeff m * (13031 / 3200 :: real) ^ m)"
          "(\<Sum>m<20. sin_coeff m * (13031 / 3200 :: real) ^ m) \<le> - (80197 / 100000)"
    by (simp_all add: taylor_eval)
  show "- (8021 / 10000) \<le> sin (13031 / 3200 :: real)" "sin (13031 / 3200 :: real) \<le> - (8019 / 10000)"
    using Maclaurin_sin_bound [of "13031 / 3200" 20] s remainder_83 by linarith+
qed

lemma cos_83:
  "- (5975 / 10000) \<le> cos (13031 / 3200 :: real)" "cos (13031 / 3200 :: real) \<le> - (5973 / 10000)"
proof -
  have s: "- (59736 / 100000) \<le> (\<Sum>m<20. cos_coeff m * (13031 / 3200 :: real) ^ m)"
          "(\<Sum>m<20. cos_coeff m * (13031 / 3200 :: real) ^ m) \<le> - (59735 / 100000)"
    by (simp_all add: taylor_eval)
  show "- (5975 / 10000) \<le> cos (13031 / 3200 :: real)" "cos (13031 / 3200 :: real) \<le> - (5973 / 10000)"
    using Maclaurin_cos_bound [of "13031 / 3200" 20] s remainder_83 by linarith+
qed

lemma sin_314_pos: "0 < sin (157 / 50 :: real)"
proof -
  have s: "159 / 100000 \<le> (\<Sum>m<20. sin_coeff m * (157 / 50 :: real) ^ m)"
    by (simp add: lessThan_nat_numeral lessThan_Suc sin_coeff_def fact_numeral power_divide)
  have e: "inverse (fact 20) * \<bar>157 / 50 :: real\<bar> ^ 20 \<le> 1 / 1000000"
    by (simp add: fact_numeral power_divide)
  show ?thesis
    using Maclaurin_sin_bound [of "157 / 50" 20] s e by linarith
qed

subsection \<open>Orientation and overlap, in closed form\<close>

lemma float_to_int_pos_iff: "0 < float_to_int v \<longleftrightarrow> 1 \<le> v"
  unfolding float_to_int_def by (auto simp: less_ceiling_iff)

lemma orientation_eq_1_iff:
  "orientation p q r = 1 \<longleftrightarrow>
     1 \<le> (vec_y q - vec_y p) * (vec_x r - vec_x q) - (vec_x q - vec_x p) * (vec_y r - vec_y q)"
proof -
  have "orientation p q r = 1 \<longleftrightarrow>
          0 < float_to_int ((vec_y q - vec_y p) * (vec_x r - vec_x q) -
                            (vec_x q - vec_x p) * (vec_y r - vec_y q))"
    by (auto simp: orientation_def Let_def)
  then show ?thesis by (simp add: float_to_int_pos_iff)
qed

lemma lineIntersection_general:
  assumes "orientation p1 q1 p2 \<noteq> orientation p1 q1 q2"
    and "orientation p2 q2 p1 \<noteq> orientation p2 q2 q1"
  shows "lineIntersection p1 q1 p2 q2"
  using assms by (simp add: lineIntersection_def Let_def)

lemma rect_intersects_nonneg_iff:
  assumes "0 \<le> rect_width r1" and "0 \<le> rect_height r1"
    and "0 \<le> rect_width r2" and "0 \<le> rect_height r2"
  shows "rect_intersects r1 r2 \<longleftrightarrow>
           0 < rect_width r1 \<and> 0 < rect_width r2 \<and>
           rect_left r1 < rect_left r2 + rect_width r2 \<and>
           rect_left r2 < rect_left r1 + rect_width r1 \<and>
           0 < rect_height r1 \<and> 0 < rect_height r2 \<and>
           rect_top r1 < rect_top r2 + rect_height r2 \<and>
           rect_top r2 < rect_top r1 + rect_height r1"
proof -
  have x1: "min (rect_left r1) (rect_left r1 + rect_width r1) = rect_left r1"
           "max (rect_left r1) (rect_left r1 + rect_width r1) = rect_left r1 + rect_width r1"
    and y1: "min (rect_top r1) (rect_top r1 + rect_height r1) = rect_top r1"
            "max (rect_top r1) (rect_top r1 + rect_height r1) = rect_top r1 + rect_height r1"
    using assms(1,2) by simp_all
  have x2: "min (rect_left r2) (rect_left r2 + rect_width r2) = rect_left r2"
           "max (rect_left r2) (rect_left r2 + rect_width r2) = rect_left r2 + rect_width r2"
    and y2: "min (rect_top r2) (rect_top r2 + rect_height r2) = rect_top r2"
            "max (rect_top r2) (rect_top r2 + rect_height r2) = rect_top r2 + rect_height r2"
    using assms(3,4) by simp_all
  show ?thesis
    unfolding rect_intersects_def Let_def x1 y1 x2 y2 by auto
qed

lemma computeBounds_covers:
  assumes "v \<in> set arr"
  shows "rect_left (computeBounds arr) \<le> vec_x v"
    and "vec_x v \<le> rect_left (computeBounds arr) + rect_width (computeBounds arr)"
    and "rect_top (computeBounds arr) \<le> vec_y v"
    and "vec_y v \<le> rect_top (computeBounds arr) + rect_height (computeBounds arr)"
proof -
  have ne: "arr \<noteq> []" using assms by auto
  note B = computeBounds_nonempty [OF ne]
  show "rect_left (computeBounds arr) \<le> vec_x v" "rect_top (computeBounds arr) \<le> vec_y v"
    using assms by (simp_all add: B)
  have "vec_x v \<le> Max (vec_x ` set arr)" "vec_y v \<le> Max (vec_y ` set arr)"
    using assms by simp_all
  then show "vec_x v \<le> rect_left (computeBounds arr) + rect_width (computeBounds arr)"
    and "vec_y v \<le> rect_top (computeBounds arr) + rect_height (computeBounds arr)"
    unfolding B(3,4) by linarith+
qed

lemma computeBounds_lower:
  assumes "arr \<noteq> []" and "\<forall>v\<in>set arr. xlo \<le> vec_x v \<and> ylo \<le> vec_y v"
  shows "xlo \<le> rect_left (computeBounds arr)" and "ylo \<le> rect_top (computeBounds arr)"
  using assms by (simp_all add: computeBounds_nonempty)

subsection \<open>The usage sample\<close>

lemma transformPoint_sample: "transformPoint sample_translation p = Vector2f (vec_x p + 9) (vec_y p)"
  by (simp add: sample_translation_def translate_def combine_def Transform_identity_def
      transformPoint_def)

lemma sample_edge_hits_square:
  fixes s82 c82 s83 c83 :: real
  assumes s82: "- (7718 / 10000) \<le> s82" "s82 \<le> - (7716 / 10000)"
    and c82: "- (6361 / 10000) \<le> c82" "c82 \<le> - (6359 / 10000)"
    and s83: "- (8021 / 10000) \<le> s83" "s83 \<le> - (8019 / 10000)"
    and c83: "- (5975 / 10000) \<le> c83" "c83 \<le> - (5973 / 10000)"
  shows "lineIntersection (Vector2f (s82 * 5 + 5 + 9) (c82 * 5 + 5))
           (Vector2f (s83 * 5 + 5 + 9) (c83 * 5 + 5)) (Vector2f 10 0) (Vector2f 10 10)"
proof -
  let ?p1 = "Vector2f (s82 * 5 + 5 + 9) (c82 * 5 + 5)"
  let ?q1 = "Vector2f (s83 * 5 + 5 + 9) (c83 * 5 + 5)"
  let ?p2 = "Vector2f 10 0"
  let ?q2 = "Vector2f 10 10"
  define A where "A = vec_y ?q1 - vec_y ?p1"
  define B where "B = 10 - vec_x ?q1"
  define C where "C = vec_x ?p1 - vec_x ?q1"
  define D where "D = 10 - vec_y ?q1"
  define E where "E = vec_y ?q1"
  have A: "0 \<le> A" "A \<le> 2 / 10"
    using c82 c83 by (simp_all add: A_def)
  have B: "0 \<le> B" "B \<le> 2 / 100"
    using s83 by (simp_all add: B_def)
  have C: "15 / 100 \<le> C"
    using s82 s83 by (simp add: C_def)
  have D: "79 / 10 \<le> D"
    using c83 by (simp add: D_def)
  have E: "0 \<le> E"
    using c83 by (simp add: E_def)
  have AB0: "0 \<le> A * B"
    using A(1) B(1) by (rule mult_nonneg_nonneg)
  have AB1: "A * B \<le> (2 / 10) * (2 / 100)"
    using A B by (intro mult_mono) simp_all
  have CD: "(15 / 100) * (79 / 10) \<le> C * D"
    using C D by (intro mult_mono) simp_all
  have CE: "0 \<le> C * E"
    using C E by (intro mult_nonneg_nonneg) simp_all
  have v1: "(vec_y ?q1 - vec_y ?p1) * (vec_x ?p2 - vec_x ?q1) -
            (vec_x ?q1 - vec_x ?p1) * (vec_y ?p2 - vec_y ?q1) = A * B - C * E"
    by (simp add: A_def B_def C_def E_def algebra_simps)
  have v2: "(vec_y ?q1 - vec_y ?p1) * (vec_x ?q2 - vec_x ?q1) -
            (vec_x ?q1 - vec_x ?p1) * (vec_y ?q2 - vec_y ?q1) = A * B + C * D"
    by (simp add: A_def B_def C_def D_def algebra_simps)
  have o1: "orientation ?p1 ?q1 ?p2 \<noteq> 1"
    unfolding orientation_eq_1_iff v1 using AB1 CE by simp
  have o2: "orientation ?p1 ?q1 ?q2 = 1"
    unfolding orientation_eq_1_iff v2 using AB0 CD by simp
  have o3: "orientation ?p2 ?q2 ?p1 = 1"
    unfolding orientation_eq_1_iff using s82 by simp
  have o4: "orientation ?p2 ?q2 ?q1 \<noteq> 1"
    unfolding orientation_eq_1_iff using s83 by simp
  show ?thesis
    using o1 o2 o3 o4 by (intro lineIntersection_general) simp_all
qed

lemma circleVertex_range:
  assumes "0 \<le> radius"
  shows "0 \<le> vec_x (circleVertex radius cnt k)" and "0 \<le> vec_y (circleVertex radius cnt k)"
proof -
  have "- 1 * radius \<le> sin (6.28 / real cnt * real k) * radius"
    using assms by (intro mult_right_mono) simp_all
  then show "0 \<le> vec_x (circleVertex radius cnt k)"
    by (simp add: circleVertex_def)
  have "- 1 * radius \<le> cos (6.28 / real cnt * real k) * radius"
    using assms by (intro mult_right_mono) simp_all
  then show "0 \<le> vec_y (circleVertex radius cnt k)"
    by (simp add: circleVertex_def)
qed

lemma sample_vertex_0: "circleVertex 5 128 0 = Vector2f 5 10"
  by (simp add: circleVertex_def)

lemma sample_vertex_82:
  "circleVertex 5 128 82 = Vector2f (sin (6437 / 1600) * 5 + 5) (cos (6437 / 1600) * 5 + 5)"
  by (simp add: circleVertex_def)

lemma sample_vertex_83:
  "circleVertex 5 128 83 = Vector2f (sin (13031 / 3200) * 5 + 5) (cos (13031 / 3200) * 5 + 5)"
  by (simp add: circleVertex_def)

lemma sample_circle:
  "circle 5 128 = Some (foldl pushBack Collider_default (map (circleVertex 5 128) [0..<128]))"
  by (rule circle_eq) simp

lemma collides_sample_once:
  assumes "m_arr c = map (circleVertex 5 128) [0..<128]"
  shows "collides (applyTransform c sample_translation) ex_square"
proof -
  let ?T = "transformPoint sample_translation"
  define c1 where "c1 = applyTransform c sample_translation"
  define vs1 where "vs1 = map (\<lambda>k. ?T (circleVertex 5 128 k)) [0..<128]"
  have arr1: "m_arr c1 = vs1"
    by (simp add: c1_def vs1_def m_arr_applyTransform assms)
  have len: "length vs1 = 128" by (simp add: vs1_def)
  have ne: "vs1 \<noteq> []" using len by auto
  have b1: "getGlobalBounds c1 = computeBounds vs1"
    using wellFormed_applyTransform [of c sample_translation] arr1
    by (simp add: c1_def wellFormed_def getGlobalBounds_def)
  have nth: "\<And>k. k < 128 \<Longrightarrow> vs1 ! k = ?T (circleVertex 5 128 k)"
    by (simp add: vs1_def)
  have v0: "vs1 ! 0 = Vector2f 14 10"
    by (simp add: nth sample_vertex_0 transformPoint_sample)
  have v82: "vs1 ! 82 = Vector2f (sin (6437 / 1600) * 5 + 5 + 9) (cos (6437 / 1600) * 5 + 5)"
    by (simp add: nth sample_vertex_82 transformPoint_sample)
  have v83: "vs1 ! 83 = Vector2f (sin (13031 / 3200) * 5 + 5 + 9) (cos (13031 / 3200) * 5 + 5)"
    by (simp add: nth sample_vertex_83 transformPoint_sample)
  have m0: "Vector2f 14 10 \<in> set vs1"
    using nth_mem [of 0 vs1] len v0 by simp
  have m83: "Vector2f (sin (13031 / 3200) * 5 + 5 + 9) (cos (13031 / 3200) * 5 + 5) \<in> set vs1"
    using nth_mem [of 83 vs1] len v83 by simp
  have low: "\<forall>v\<in>set vs1. 9 \<le> vec_x v \<and> 0 \<le> vec_y v"
    using circleVertex_range [of 5 128] by (auto simp: vs1_def transformPoint_sample)
  note lo = computeBounds_lower [OF ne low]
  note c0 = computeBounds_covers [OF m0]
  note c83 = computeBounds_covers [OF m83]
  note sz = computeBounds_size_nonneg [of vs1]
  let ?b = "computeBounds vs1"
  have L: "9 \<le> rect_left ?b" "rect_left ?b < 10" "14 \<le> rect_left ?b + rect_width ?b"
    using lo(1) c0(2) c83(1) sin_83(2) by simp_all
  have T: "0 \<le> rect_top ?b" "rect_top ?b < 10" "10 \<le> rect_top ?b + rect_height ?b"
    using lo(2) c0(4) c83(3) cos_83(2) by simp_all
  have overlap: "rect_intersects (getGlobalBounds c1) (getGlobalBounds ex_square)"
    unfolding b1 using L T sz
    by (subst rect_intersects_nonneg_iff) (simp_all add: ex_square_eq getGlobalBounds_def)
  have pre: "nonnegatively_dimensional_rect_intersection (getGlobalBounds c1) (getGlobalBounds ex_square)"
    unfolding b1 using L T
    by (simp add: nonnegatively_dimensional_rect_intersection_def ex_square_eq getGlobalBounds_def)
  have "lineIntersection (closedLoop vs1 ! (83 - 1)) (closedLoop vs1 ! 83)
          (closedLoop (m_arr ex_square) ! (2 - 1)) (closedLoop (m_arr ex_square) ! 2)"
    using sample_edge_hits_square [OF sin_82 cos_82 sin_83 cos_83]
    by (simp add: closedLoop_def nth_append len v82 v83 ex_square_eq)
  moreover have "83 \<in> {1..<length (closedLoop vs1)}"
    by (simp add: closedLoop_def len)
  moreover have "2 \<in> {1..<length (closedLoop (m_arr ex_square))}"
    by (simp add: closedLoop_def ex_square_eq)
  ultimately have "someEdgeIntersects (closedLoop vs1) (closedLoop (m_arr ex_square))"
    unfolding someEdgeIntersects_def by blast
  then have "intersects c1 ex_square"
    using pre ne by (simp add: intersects_unfold arr1 ex_square_eq)
  then show ?thesis
    using overlap by (simp add: collides_def c1_def)
qed

lemma collides_sample_twice:
  assumes "m_arr c = map (circleVertex 5 128) [0..<128]"
  shows "\<not> collides (applyTransform (applyTransform c sample_translation) sample_translation) ex_square"
proof -
  let ?T = "transformPoint sample_translation"
  define c2 where "c2 = applyTransform (applyTransform c sample_translation) sample_translation"
  define vs2 where "vs2 = map (\<lambda>k. ?T (?T (circleVertex 5 128 k))) [0..<128]"
  have arr2: "m_arr c2 = vs2"
    by (simp add: c2_def vs2_def m_arr_applyTransform assms)
  have ne: "vs2 \<noteq> []" by (simp add: vs2_def)
  have b2: "getGlobalBounds c2 = computeBounds vs2"
    using wellFormed_applyTransform [of "applyTransform c sample_translation" sample_translation] arr2
    by (simp add: c2_def wellFormed_def getGlobalBounds_def)
  have low: "\<forall>v\<in>set vs2. 18 \<le> vec_x v \<and> 0 \<le> vec_y v"
    using circleVertex_range [of 5 128] by (auto simp: vs2_def transformPoint_sample)
  note lo = computeBounds_lower [OF ne low]
  note sz = computeBounds_size_nonneg [of vs2]
  have "\<not> rect_intersects (getGlobalBounds c2) (getGlobalBounds ex_square)"
    unfolding b2 using lo(1) sz
    by (subst rect_intersects_nonneg_iff) (simp_all add: ex_square_eq getGlobalBounds_def)
  then show ?thesis
    by (simp add: collides_def c2_def)
qed

section \<open>Claims\<close>

text \<open>
  Claim C1, at the input where the code departs from it. After \<open>pushBack\<close> of the one
  vertex \<open>(-1, -1)\<close> on a new collider, the tight box of the vertices is
  \<open>(-1, -1, 0, 0)\<close>, while \<open>getGlobalBounds\<close> returns \<open>(-1, -1, 1, 1)\<close>: the running
  maximum of \<^verbatim>\<open>updateGlobalBounds\<close> starts at \<open>(0, 0)\<close>, not at the first vertex as the
  running minimum does, so the box reaches to the origin.
\<close>

theorem bounds_not_tight_below_origin:
  "getGlobalBounds (pushBack Collider_default (Vector2f (-1) (-1))) =
     \<lparr>rect_left = -1, rect_top = -1, rect_width = 1, rect_height = 1\<rparr> \<and>
   tightBounds (m_arr (pushBack Collider_default (Vector2f (-1) (-1)))) =
     \<lparr>rect_left = -1, rect_top = -1, rect_width = 0, rect_height = 0\<rparr>"
  by code_simp

text \<open>
  Claim C2, at the input where the code departs from it. The horizontal segment from
  \<open>(-10, 0)\<close> to \<open>(0, 0)\<close> and the vertical segment from \<open>(-1, -1)\<close> to \<open>(-1, 1)\<close> are
  non-empty colliders whose sides cross at \<open>(-1, 0)\<close>, and \<open>lineIntersection\<close> says so of
  their closed loops, but \<open>intersects\<close> returns false: the bounds test takes the absolute
  values \<open>10\<close> and \<open>1\<close> of the box corners, and \<open>10 > 1 + 1\<close> rejects. After a translation
  of both colliders by \<open>(20, 20)\<close> the same query returns true.
\<close>

theorem edge_hit_rejected_by_prefilter:
  "m_arr ex_horizontal \<noteq> [] \<and> m_arr ex_vertical \<noteq> [] \<and>
   segments_overlap (Vector2f (-10) 0) (Vector2f 0 0) (Vector2f (-1) (-1)) (Vector2f (-1) 1) \<and>
   someEdgeIntersects (closedLoop (m_arr ex_horizontal)) (closedLoop (m_arr ex_vertical)) \<and>
   \<not> intersects ex_horizontal ex_vertical \<and>
   intersects (applyTransform ex_horizontal shift_20) (applyTransform ex_vertical shift_20)"
proof -
  have "segments_overlap (Vector2f (-10) 0) (Vector2f 0 0) (Vector2f (-1) (-1)) (Vector2f (-1) 1)"
    unfolding segments_overlap_def segment_point_def
    by (rule exI [of _ "9/10"], rule exI [of _ "1/2"]) simp
  moreover have "m_arr ex_horizontal \<noteq> [] \<and> m_arr ex_vertical \<noteq> [] \<and>
      someEdgeIntersects (closedLoop (m_arr ex_horizontal)) (closedLoop (m_arr ex_vertical)) \<and>
      \<not> intersects ex_horizontal ex_vertical"
    by code_simp
  moreover have
    "intersects (applyTransform ex_horizontal shift_20) (applyTransform ex_vertical shift_20)"
    by code_simp
  ultimately show ?thesis by simp
qed

theorem edge_hit_rejected_by_prefilter_witness:
  "someEdgeIntersects (closedLoop (m_arr ex_horizontal)) (closedLoop (m_arr ex_vertical)) \<and>
   \<not> intersects ex_horizontal ex_vertical"
  using edge_hit_rejected_by_prefilter by simp

text \<open>
  Claim C3. Let \<open>c = circle(5)\<close>, with the default count of 128, and
  \<open>r = rectangle({10, 10})\<close>. After one \<open>applyTransform\<close> of the translation by
  \<open>(9, 0)\<close>, \<open>c.collides(r)\<close> is true; after a second identical \<open>applyTransform\<close>,
  \<open>c.collides(r)\<close> is false. The first component of the pair is the first answer, the
  second component the second.
\<close>

theorem usage_sample_collides_once_then_not:
  "map_option
     (\<lambda>c. (collides (applyTransform c sample_translation) (rectangle (Vector2f 10 10)),
           collides (applyTransform (applyTransform c sample_translation) sample_translation)
             (rectangle (Vector2f 10 10))))
     (circle 5 128) = Some (True, False)"
proof -
  let ?c = "foldl pushBack Collider_default (map (circleVertex 5 128) [0..<128])"
  have arr: "m_arr ?c = map (circleVertex 5 128) [0..<128]"
    by (simp add: m_arr_foldl_pushBack Collider_default_def)
  show ?thesis
    using collides_sample_once [OF arr] collides_sample_twice [OF arr]
    by (simp add: sample_circle ex_square_def)
qed

theorem usage_sample_collides_once_then_not_witness:
  "\<exists>c. circle 5 128 = Some c \<and>
       collides (applyTransform c sample_translation) (rectangle (Vector2f 10 10)) \<and>
       \<not> collides (applyTransform (applyTransform c sample_translation) sample_translation)
           (rectangle (Vector2f 10 10))"
  using usage_sample_collides_once_then_not by (cases "circle 5 128") auto

text \<open>
  Claim C4. An empty collider participates in no collision: if either collider's vertex
  list is empty, \<open>intersects\<close> and \<open>collides\<close> return false in both argument orders, and
  \<open>contains\<close> on an empty collider returns false for every point. The empty collider's
  cached box is the one its mutators left, the zero box.
\<close>

theorem empty_collider_no_collision:
  assumes "m_arr e = []" and "wellFormed e"
  shows "\<not> intersects e b \<and> \<not> intersects b e \<and> \<not> collides e b \<and> \<not> collides b e
         \<and> \<not> contains e p"
proof -
  have b: "getGlobalBounds e = FloatRect_default"
    using assms by (simp add: wellFormed_def getGlobalBounds_def computeBounds_Nil)
  have "\<not> intersects e b" "\<not> intersects b e"
    using assms(1) by (simp_all add: intersects_def)
  moreover have "\<not> collides e b" "\<not> collides b e"
    by (simp_all add: collides_def b rect_intersects_default_left rect_intersects_default_right)
  moreover have "\<not> contains e p"
    using assms(1) by (rule contains_empty)
  ultimately show ?thesis by simp
qed

theorem empty_collider_no_collision_witness:
  "m_arr (clear ex_square) = [] \<and> wellFormed (clear ex_square) \<and>
   \<not> intersects (clear ex_square) ex_square \<and> \<not> intersects ex_square (clear ex_square) \<and>
   \<not> collides (clear ex_square) ex_square \<and> \<not> collides ex_square (clear ex_square) \<and>
   \<not> contains (clear ex_square) (Vector2f 5 5)"
proof -
  have e: "m_arr (clear ex_square) = []" by (rule m_arr_clear)
  have w: "wellFormed (clear ex_square)" by (rule wellFormed_clear)
  show ?thesis
    using e w empty_collider_no_collision [OF e w, of ex_square "Vector2f 5 5"] by simp
qed

text \<open>
  Claim C5, at the input where the code departs from it. The segments \<open>(0, 0)-(1, 1)\<close>
  and \<open>(1/2, 5/8)-(3/4, 7/8)\<close> are parallel and share no point, and
  \<open>lineIntersection\<close> returns true: the cross product \<open>- 1/8\<close> of the first orientation
  is truncated to \<open>0\<close> by the conversion to \<^verbatim>\<open>int\<close>, the point \<open>(1/2, 5/8)\<close> then
  counts as collinear, and it lies in the box spanned by \<open>(0, 0)\<close> and \<open>(1, 1)\<close>.
\<close>

theorem parallel_disjoint_segments_reported_intersecting:
  "segment_parallel (Vector2f 0 0) (Vector2f 1 1) (Vector2f (1/2) (5/8)) (Vector2f (3/4) (7/8)) \<and>
   \<not> segments_overlap (Vector2f 0 0) (Vector2f 1 1) (Vector2f (1/2) (5/8)) (Vector2f (3/4) (7/8)) \<and>
   lineIntersection (Vector2f 0 0) (Vector2f 1 1) (Vector2f (1/2) (5/8)) (Vector2f (3/4) (7/8))"
proof -
  have "segment_parallel (Vector2f 0 0) (Vector2f 1 1) (Vector2f (1/2) (5/8)) (Vector2f (3/4) (7/8))"
    by (simp add: segment_parallel_def)
  moreover have "\<not> segments_overlap (Vector2f 0 0) (Vector2f 1 1) (Vector2f (1/2) (5/8)) (Vector2f (3/4) (7/8))"
    by (auto simp: segments_overlap_def segment_point_def)
  moreover have "lineIntersection (Vector2f 0 0) (Vector2f 1 1) (Vector2f (1/2) (5/8)) (Vector2f (3/4) (7/8))"
    by code_simp
  ultimately show ?thesis by simp
qed

text \<open>
  Claim C6, at the input where the code departs from it. \<open>circle(1, 2)\<close> returns two
  vertices; the second is \<open>(sin 3.14 + 1, cos 3.14 + 1)\<close>, from the literal \<^verbatim>\<open>6.28\<close>,
  while the specification's vertex at the angle \<open>2 \<pi> / 2\<close> is \<open>(1, 0)\<close>; the two differ,
  since \<open>sin 3.14\<close> is positive.
\<close>

theorem circle_uses_truncated_constant:
  "map_option m_arr (circle 1 2) =
     Some [Vector2f 1 2, Vector2f (sin (157 / 50) + 1) (cos (157 / 50) + 1)] \<and>
   circle_spec 1 2 = [Vector2f 1 2, Vector2f 1 0] \<and>
   sin (157 / 50 :: real) + 1 \<noteq> 1"
proof -
  have "map_option m_arr (circle 1 2) =
          Some [Vector2f 1 2, Vector2f (sin (157 / 50) + 1) (cos (157 / 50) + 1)]"
    by (simp add: circle_vertices upt_conv_Cons circleVertex_def)
  moreover have "circle_spec 1 2 = [Vector2f 1 2, Vector2f 1 0]"
    by (simp add: circle_spec_def upt_conv_Cons)
  moreover have "sin (157 / 50 :: real) + 1 \<noteq> 1"
    using sin_314_pos by simp
  ultimately show ?thesis by simp
qed

text \<open>
  Claim C7, at the input where the code departs from it. The collider of the single
  vertex \<open>(5, 5)\<close> is non-empty and \<open>intersects\<close> its identical copy, yet \<open>collides\<close>
  returns false for the pair: the cached box \<open>(5, 5, 0, 0)\<close> has no area, and the bounds
  test at the head of \<open>collides\<close> rejects it against itself.
\<close>

theorem single_vertex_copy_does_not_collide:
  "m_arr ex_point \<noteq> [] \<and> intersects ex_point ex_point \<and> \<not> collides ex_point ex_point"
  unfolding ex_point_eq by code_simp

theorem single_vertex_copy_does_not_collide_witness:
  "intersects ex_point ex_point \<and> \<not> collides ex_point ex_point"
  using single_vertex_copy_does_not_collide by simp

text \<open>
  Claim C8, at the inputs where the code departs from it. The square of side \<open>10\<close>
  strictly encloses the single vertex \<open>(5, 5)\<close>, and \<open>A.collides(B)\<close> is false: the box of
  \<open>B\<close> has no area and the bounds test rejects. The triangle with legs of \<open>7/8\<close> strictly
  encloses the triangle \<open>(1/8, 1/8), (1/4, 1/8), (1/8, 1/4)\<close>, and \<open>B.collides(A)\<close> is true:
  every cross product between their edges is below \<open>1\<close> in magnitude and is truncated to
  \<open>0\<close>, so \<open>lineIntersection\<close> reports edges that share no point.
\<close>

theorem strict_enclosure_misjudged:
  "m_arr ex_square \<noteq> [] \<and> m_arr ex_point \<noteq> [] \<and>
   strictlyEncloses ex_square ex_point \<and> \<not> collides ex_square ex_point \<and>
   m_arr ex_outer_triangle \<noteq> [] \<and> m_arr ex_inner_triangle \<noteq> [] \<and>
   strictlyEncloses ex_outer_triangle ex_inner_triangle \<and>
   collides ex_inner_triangle ex_outer_triangle"
proof -
  have "list_all (contains ex_square) (m_arr ex_point) \<and>
      list_all (\<lambda>v. \<not> contains ex_point v) (m_arr ex_square) \<and>
      \<not> collides ex_square ex_point"
    unfolding ex_square_eq ex_point_eq by code_simp
  moreover have "\<not> edgesTouch (m_arr ex_square) (m_arr ex_point)"
    unfolding ex_square_eq ex_point_eq
    by (auto simp: edgesTouch_def loopEdges_def closedLoop_def segments_overlap_def
        segment_point_def)
  moreover have "list_all (contains ex_outer_triangle) (m_arr ex_inner_triangle) \<and>
      list_all (\<lambda>v. \<not> contains ex_inner_triangle v) (m_arr ex_outer_triangle) \<and>
      collides ex_inner_triangle ex_outer_triangle"
    unfolding ex_outer_triangle_eq ex_inner_triangle_eq by code_simp
  moreover have "\<not> edgesTouch (m_arr ex_outer_triangle) (m_arr ex_inner_triangle)"
    unfolding ex_outer_triangle_eq ex_inner_triangle_eq
    by (auto simp: edgesTouch_def loopEdges_def closedLoop_def segments_overlap_def
        segment_point_def)
  moreover have "m_arr ex_square \<noteq> [] \<and> m_arr ex_point \<noteq> [] \<and>
      m_arr ex_outer_triangle \<noteq> [] \<and> m_arr ex_inner_triangle \<noteq> []"
    by (simp add: ex_square_eq ex_point_eq ex_outer_triangle_eq ex_inner_triangle_eq)
  ultimately show ?thesis by (simp add: strictlyEncloses_def)
qed

theorem strict_enclosure_misjudged_witness:
  "\<not> collides ex_square ex_point \<and> collides ex_inner_triangle ex_outer_triangle"
  using strict_enclosure_misjudged by simp

text \<open>
  Claim C9, at the inputs where the code departs from it. The unit square and its copy
  translated by \<open>(1, 0)\<close> share a side: \<open>intersects\<close> is true and \<open>collides\<close> is false, as
  the boxes meet in a line of no area and the bounds test at the head of \<open>collides\<close>
  rejects. The left triangle has the box from \<open>-4\<close> to \<open>0\<close>, the right one from \<open>2\<close> to
  \<open>5\<close>: \<open>collides\<close> is false, while \<open>intersects\<close> is true, since its bounds test compares
  the absolute value \<open>4\<close> with \<open>2 + 3\<close> and the edges \<open>(-4, 0)-(0, 0)\<close> and
  \<open>(2, 1/8)-(2, 3/8)\<close> have the cross products \<open>-1/2, -3/2, -3/2, -1/2\<close>, truncated to
  \<open>0, -1, -1, 0\<close>.
\<close>

theorem intersects_without_collides:
  "intersects ex_unit_square ex_unit_square_shifted \<and>
   \<not> collides ex_unit_square ex_unit_square_shifted \<and>
   intersects ex_left_triangle ex_right_triangle \<and>
   \<not> collides ex_left_triangle ex_right_triangle"
proof -
  have "intersects ex_unit_square ex_unit_square_shifted \<and>
      \<not> collides ex_unit_square ex_unit_square_shifted"
    unfolding ex_unit_square_eq ex_unit_square_shifted_eq by code_simp
  moreover have "intersects ex_left_triangle ex_right_triangle \<and>
      \<not> collides ex_left_triangle ex_right_triangle"
    by code_simp
  ultimately show ?thesis by simp
qed

theorem intersects_without_collides_witness:
  "intersects ex_unit_square ex_unit_square_shifted \<and>
   \<not> collides ex_unit_square ex_unit_square_shifted"
  using intersects_without_collides by simp

text \<open>
  Claim C10. For every two colliders \<open>a\<close> and \<open>b\<close>, \<open>a.intersects(b)\<close> equals
  \<open>b.intersects(a)\<close>: the edge-intersection query is symmetric in its arguments.
\<close>

theorem intersects_symmetric: "intersects a b = intersects b a"
  unfolding intersects_unfold
  using nonneg_rect_commute [of "getGlobalBounds a" "getGlobalBounds b"]
        someEdgeIntersects_commute [of "closedLoop (m_arr a)" "closedLoop (m_arr b)"]
  by auto

theorem intersects_symmetric_witness:
  "intersects ex_left_triangle ex_right_triangle \<and> intersects ex_right_triangle ex_left_triangle"
proof -
  have "intersects ex_left_triangle ex_right_triangle" by code_simp
  then show ?thesis
    using intersects_symmetric [of ex_left_triangle ex_right_triangle] by simp
qed

end
